theory Spec2Isabelle
  imports Main "HOL-Library.Word" "HOL-Library.Sublist"
begin

section \<open>JavaScript strings\<close>

text \<open>
  A JavaScript string is a sequence of 16-bit code units. The literals of
  \<^verbatim>\<open>src/index.tsx\<close> that matter here are ASCII, so \<open>lit\<close> reads an Isabelle
  string into code units; \<open>nl\<close> is the line feed of a multi-line template literal.
\<close>

type_synonym jschar = "16 word"
type_synonym jsstring = "jschar list"

definition lit :: "string \<Rightarrow> jsstring" where
  "lit s = map of_char s"

definition nl :: string where
  "nl = [CHR 0x0A]"

text \<open>
  \<^verbatim>\<open>String.prototype.trim\<close> strips ECMAScript white space and line terminators from
  both ends: TAB, LF, VT, FF, CR, SP, NBSP, U+1680, U+2000 to U+200A, LS, PS, U+202F,
  U+205F, U+3000 and the byte order mark.
\<close>

definition is_white_space :: "jschar \<Rightarrow> bool" where
  "is_white_space c \<longleftrightarrow>
     c \<in> {0x09, 0x0A, 0x0B, 0x0C, 0x0D, 0x20, 0xA0, 0x1680, 0x2028, 0x2029,
          0x202F, 0x205F, 0x3000, 0xFEFF}
     \<or> (0x2000 \<le> c \<and> c \<le> 0x200A)"

definition trim :: "jsstring \<Rightarrow> jsstring" where
  "trim s = rev (dropWhile is_white_space (rev (dropWhile is_white_space s)))"

text \<open>
  \<^verbatim>\<open>x || d\<close> for \<open>x\<close> a string or \<^verbatim>\<open>undefined\<close>: both \<^verbatim>\<open>undefined\<close> and the empty
  string are falsy.
\<close>

definition or_else :: "jsstring option \<Rightarrow> jsstring \<Rightarrow> jsstring" where
  "or_else x d = (case x of None \<Rightarrow> d | Some v \<Rightarrow> if v = [] then d else v)"

section \<open>Data of \<^verbatim>\<open>src/index.tsx\<close>\<close>

text \<open>
  \<^verbatim>\<open>interface GroundingChunk { web?: { uri: string; title: string } }\<close> and
  \<^verbatim>\<open>interface SearchResult { text: string; chunks: GroundingChunk[] }\<close>.
  The chunk objects are the ones of the API response, stored untouched, and the
  renderer guards the title with \<^verbatim>\<open>chunk.web.title || "Untitled Source"\<close>; the
  model therefore keeps the title optional (\<^verbatim>\<open>undefined\<close> is \<open>None\<close>).
\<close>

record web_source =
  uri :: jsstring
  title :: "jsstring option"

record GroundingChunk =
  web :: "web_source option"

record SearchResult =
  result_text :: jsstring
  chunks :: "GroundingChunk list"

text \<open>
  What \<^verbatim>\<open>handleSearch\<close> reads of the response of \<^verbatim>\<open>ai.models.generateContent\<close>:
  \<^verbatim>\<open>response.text\<close> and
  \<^verbatim>\<open>response.candidates?.[0]?.groundingMetadata?.groundingChunks\<close>, every link of
  the chain optional.
\<close>

record grounding_metadata =
  groundingChunks :: "GroundingChunk list option"

record candidate =
  groundingMetadata :: "grounding_metadata option"

record response =
  response_text :: "jsstring option"
  candidates :: "candidate list option"

text \<open>
  The value a failed call rejects with, caught as \<^verbatim>\<open>err: any\<close> (line 57). It is
  \<^verbatim>\<open>null\<close> or \<^verbatim>\<open>undefined\<close>, on which reading \<^verbatim>\<open>err.message\<close> throws a
  \<^verbatim>\<open>TypeError\<close>, or any other value, of which \<^verbatim>\<open>err.message\<close> is the message
  property (absent on a primitive and on an object that has none).
\<close>

record js_error =
  message :: "jsstring option"

datatype thrown = Nullish | ErrorValue js_error

datatype outcome = Fulfilled response | Rejected thrown

text \<open>The exceptions of the engine that the code can raise itself.\<close>

datatype js_exception = TypeError

text \<open>The argument of \<^verbatim>\<open>ai.models.generateContent\<close>.\<close>

datatype tool = googleSearch

record request =
  model :: jsstring
  contents :: jsstring
  tools :: "tool list"

text \<open>The four \<^verbatim>\<open>useState\<close> cells of \<^verbatim>\<open>App\<close>, with their initial values.\<close>

record app_state =
  topic :: jsstring
  loading :: bool
  result :: "SearchResult option"
  error :: jsstring

definition initial :: app_state where
  "initial = \<lparr>topic = [], loading = False, result = None, error = []\<rparr>"

section \<open>\<^verbatim>\<open>handleSearch\<close>\<close>

text \<open>
  The template literal passed as \<^verbatim>\<open>contents\<close> (lines 38 to 46): fixed text, the
  topic as typed (not trimmed) between double quotes, fixed text. Continuation lines
  carry the eight blanks of the source's indentation.
\<close>

definition prompt_head :: jsstring where
  \<open>prompt_head = lit (''Find 5 high-quality research articles, papers, or reputable academic sources ''
     @ ''published in the last 5 years (2020-2025) related to: "'')\<close>

definition prompt_tail :: jsstring where
  \<open>prompt_tail = lit (''". '' @ nl
     @ ''        '' @ nl
     @ ''        For each article, provide:'' @ nl
     @ ''        1. Title'' @ nl
     @ ''        2. Authors (if available)'' @ nl
     @ ''        3. Year'' @ nl
     @ ''        4. A brief summary of why it is relevant for a presentation.'' @ nl
     @ ''        '' @ nl
     @ ''        Use Markdown formatting (bolding titles, using bullet points) to make it easy to read.'')\<close>

definition prompt :: "jsstring \<Rightarrow> jsstring" where
  "prompt t = prompt_head @ t @ prompt_tail"

definition generate_request :: "jsstring \<Rightarrow> request" where
  "generate_request t =
     \<lparr>model = lit ''gemini-3-flash-preview'', contents = prompt t, tools = [googleSearch]\<rparr>"

text \<open>
  \<^verbatim>\<open>handleSearch\<close> is an async function: it runs to its \<^verbatim>\<open>await\<close>, and is resumed
  when the call settles. \<open>handleSearch_begin\<close> is the part before the \<^verbatim>\<open>await\<close>
  (lines 28 to 36): the early return on a blank topic, the three state writes, and
  the call issued, if any. \<^verbatim>\<open>e.preventDefault()\<close> touches the event only.
\<close>

definition handleSearch_begin :: "app_state \<Rightarrow> app_state \<times> request list" where
  "handleSearch_begin s =
     (if trim (topic s) = [] then (s, [])
      else (s\<lparr>loading := True, error := [], result := None\<rparr>, [generate_request (topic s)]))"

text \<open>
  \<^verbatim>\<open>response.candidates?.[0]?.groundingMetadata?.groundingChunks || []\<close>: an array is
  truthy even when empty, so only a missing link gives the fallback.
\<close>

definition grounding_chunks_of :: "response \<Rightarrow> GroundingChunk list" where
  "grounding_chunks_of r =
     (case candidates r of
        None \<Rightarrow> []
      | Some [] \<Rightarrow> []
      | Some (c # _) \<Rightarrow>
          (case groundingMetadata c of
             None \<Rightarrow> []
           | Some g \<Rightarrow> (case groundingChunks g of None \<Rightarrow> [] | Some cs \<Rightarrow> cs)))"

definition search_result_of :: "response \<Rightarrow> SearchResult" where
  "search_result_of r =
     \<lparr>result_text = or_else (response_text r) (lit ''No results found.''),
      chunks = grounding_chunks_of r\<rparr>"

definition error_message :: "js_error \<Rightarrow> jsstring" where
  "error_message err = or_else (message err) (lit ''An error occurred while fetching articles.'')"

text \<open>
  \<open>handleSearch_settle\<close> is the part after the \<^verbatim>\<open>await\<close> (lines 52 to 61): the
  \<^verbatim>\<open>try\<close> body on a fulfilled call, the \<^verbatim>\<open>catch\<close> on a rejected one, the
  \<^verbatim>\<open>finally\<close> after either. It only writes state, through the setters. On a
  rejection with \<^verbatim>\<open>null\<close> or \<^verbatim>\<open>undefined\<close> the argument of \<^verbatim>\<open>setError\<close> throws
  before the setter is called, so only the \<^verbatim>\<open>finally\<close> writes.
\<close>

definition handleSearch_settle :: "outcome \<Rightarrow> app_state \<Rightarrow> app_state" where
  "handleSearch_settle out s =
     (case out of
        Fulfilled r \<Rightarrow> s\<lparr>result := Some (search_result_of r), loading := False\<rparr>
      | Rejected Nullish \<Rightarrow> s\<lparr>loading := False\<rparr>
      | Rejected (ErrorValue err) \<Rightarrow> s\<lparr>error := error_message err, loading := False\<rparr>)"

text \<open>
  The exception that leaves the handler, if any: the one raised inside the
  \<^verbatim>\<open>catch\<close>, with which the promise of \<^verbatim>\<open>handleSearch\<close> is rejected. Nothing
  awaits that promise.
\<close>

definition handleSearch_escape :: "outcome \<Rightarrow> js_exception option" where
  "handleSearch_escape out =
     (case out of
        Fulfilled r \<Rightarrow> None
      | Rejected Nullish \<Rightarrow> Some TypeError
      | Rejected (ErrorValue err) \<Rightarrow> None)"

text \<open>
  One whole activation of \<^verbatim>\<open>handleSearch\<close> with nothing interleaved: \<open>api\<close> is the
  external call. It returns the final state and the calls issued.
\<close>

definition handleSearch :: "(request \<Rightarrow> outcome) \<Rightarrow> app_state \<Rightarrow> app_state \<times> request list" where
  "handleSearch api s =
     (case handleSearch_begin s of
        (s1, []) \<Rightarrow> (s1, [])
      | (s1, req # _) \<Rightarrow> (handleSearch_settle (api req) s1, [req]))"

section \<open>Rendering\<close>

text \<open>
  What \<^verbatim>\<open>App\<close> returns, as far as it depends on the state: the submit button
  (line 132 and 146), the error panel (line 151), and the result panel (line 166)
  with the markdown text and the source links (lines 283 to 354). Styling and the
  markdown component are left out.

  \<^verbatim>\<open>new URL(chunk.web.uri).hostname\<close> (line 343) is the browser's URL parser; it
  throws a \<^verbatim>\<open>TypeError\<close> on a string that is not an absolute URL. The parser is a
  parameter \<open>U\<close>: \<open>U u = Some h\<close> when \<open>u\<close> parses with host name \<open>h\<close>, \<open>None\<close>
  when the constructor throws.
\<close>

record source_link =
  href :: jsstring
  label :: jsstring
  hostname :: jsstring

datatype sources_panel = SourceList "source_link option list" | NoSourceLinks

record result_panel =
  markdown :: jsstring
  sources :: sources_panel

record page =
  button_disabled :: bool
  button_label :: jsstring
  error_panel :: "jsstring option"
  result_view :: "result_panel option"

text \<open>
  The callback of \<^verbatim>\<open>result.chunks.map\<close> (lines 285 to 348): \<^verbatim>\<open>null\<close> for a chunk
  without \<^verbatim>\<open>web\<close>, otherwise a list item with the link, the title or its fallback,
  and the host name.
\<close>

definition render_chunk ::
    "(jsstring \<Rightarrow> jsstring option) \<Rightarrow> GroundingChunk \<Rightarrow> js_exception + source_link option" where
  "render_chunk U c =
     (case web c of
        None \<Rightarrow> Inr None
      | Some w \<Rightarrow>
          (case U (uri w) of
             None \<Rightarrow> Inl TypeError
           | Some h \<Rightarrow>
               Inr (Some \<lparr>href = uri w, label = or_else (title w) (lit ''Untitled Source''),
                          hostname = h\<rparr>)))"

text \<open>\<^verbatim>\<open>Array.prototype.map\<close>: the callback runs on each element in order; a throw ends it.\<close>

fun map_chunks ::
    "(jsstring \<Rightarrow> jsstring option) \<Rightarrow> GroundingChunk list \<Rightarrow> js_exception + source_link option list" where
  "map_chunks U [] = Inr []"
| "map_chunks U (c # cs) =
     (case render_chunk U c of
        Inl e \<Rightarrow> Inl e
      | Inr x \<Rightarrow> (case map_chunks U cs of Inl e \<Rightarrow> Inl e | Inr xs \<Rightarrow> Inr (x # xs)))"

text \<open>\<^verbatim>\<open>result.chunks.length > 0 ? <ul>...</ul> : <div>No direct source links found.</div>\<close>\<close>

definition render_sources ::
    "(jsstring \<Rightarrow> jsstring option) \<Rightarrow> GroundingChunk list \<Rightarrow> js_exception + sources_panel" where
  "render_sources U cs =
     (if length cs > 0
      then (case map_chunks U cs of Inl e \<Rightarrow> Inl e | Inr xs \<Rightarrow> Inr (SourceList xs))
      else Inr NoSourceLinks)"

definition render_result ::
    "(jsstring \<Rightarrow> jsstring option) \<Rightarrow> SearchResult option \<Rightarrow> js_exception + result_panel option" where
  "render_result U r =
     (case r of
        None \<Rightarrow> Inr None
      | Some res \<Rightarrow>
          (case render_sources U (chunks res) of
             Inl e \<Rightarrow> Inl e
           | Inr p \<Rightarrow> Inr (Some \<lparr>markdown = result_text res, sources = p\<rparr>)))"

definition render :: "(jsstring \<Rightarrow> jsstring option) \<Rightarrow> app_state \<Rightarrow> js_exception + page" where
  "render U s =
     (case render_result U (result s) of
        Inl e \<Rightarrow> Inl e
      | Inr rv \<Rightarrow>
          Inr \<lparr>button_disabled = (loading s \<or> topic s = []),
               button_label = (if loading s then lit ''Searching...'' else lit ''Find Articles''),
               error_panel = (if error s = [] then None else Some (error s)),
               result_view = rv\<rparr>)"

text \<open>
  A stand-in for the URL parser, for the examples below: it accepts a string that
  starts with \<^verbatim>\<open>https://\<close> followed by a non-empty host and gives the text up to
  the next slash. On the strings the examples use it agrees with the browser.
\<close>

definition sample_URL :: "jsstring \<Rightarrow> jsstring option" where
  "sample_URL u =
     (let h = takeWhile (\<lambda>c. c \<noteq> of_char CHR ''/'') (drop 8 u)
      in if take 8 u = lit ''https://'' \<and> h \<noteq> [] then Some h else None)"

section \<open>The application as a transition system\<close>

text \<open>
  The events that reach \<^verbatim>\<open>App\<close>: the input's \<^verbatim>\<open>onChange\<close> (line 110), the form's
  \<^verbatim>\<open>onSubmit\<close> (line 104), and the settling of an outstanding call. The submit
  button is the form's only one and carries \<^verbatim>\<open>disabled={loading || !topic}\<close>
  (line 132); a browser submits a form neither through a disabled button nor
  implicitly while its default button is disabled, so \<open>Submit\<close> is enabled only when
  the button is. \<open>in_flight\<close> counts the calls not yet settled and \<open>issued\<close> logs
  every call made.
\<close>

datatype event = Change jsstring | Submit | Settle outcome

record system =
  view :: app_state
  in_flight :: nat
  issued :: "request list"

definition submit_disabled :: "app_state \<Rightarrow> bool" where
  "submit_disabled s \<longleftrightarrow> loading s \<or> topic s = []"

definition start :: system where
  "start = \<lparr>view = initial, in_flight = 0, issued = []\<rparr>"

definition step :: "event \<Rightarrow> system \<Rightarrow> system option" where
  "step e sys =
     (case e of
        Change v \<Rightarrow> Some (sys\<lparr>view := (view sys)\<lparr>topic := v\<rparr>\<rparr>)
      | Submit \<Rightarrow>
          if submit_disabled (view sys) then None
          else (case handleSearch_begin (view sys) of
                  (s', reqs) \<Rightarrow>
                    Some (sys\<lparr>view := s', in_flight := in_flight sys + length reqs,
                              issued := issued sys @ reqs\<rparr>))
      | Settle out \<Rightarrow>
          if in_flight sys = 0 then None
          else Some (sys\<lparr>view := handleSearch_settle out (view sys),
                         in_flight := in_flight sys - 1\<rparr>))"

fun run :: "event list \<Rightarrow> system \<Rightarrow> system option" where
  "run [] sys = Some sys"
| "run (e # es) sys = (case step e sys of None \<Rightarrow> None | Some sys' \<Rightarrow> run es sys')"

inductive reachable :: "system \<Rightarrow> bool" where
  reachable_start: "reachable start"
| reachable_step: "reachable sys \<Longrightarrow> step e sys = Some sys' \<Longrightarrow> reachable sys'"

text \<open>
  The spec's RequestState, and the variants a state shows: Loading when the
  loading flag is set, Succeeded when a result is held, Failed when an error message
  is held, Idle when none of these. The renderer keys the loading label, the result
  panel and the error panel on the same three tests.
\<close>

datatype RequestState = Idle | Loading | Succeeded SearchResult | Failed jsstring

definition active_variants :: "app_state \<Rightarrow> RequestState list" where
  "active_variants s =
     (let vs = (if loading s then [Loading] else [])
             @ (case result s of None \<Rightarrow> [] | Some r \<Rightarrow> [Succeeded r])
             @ (if error s = [] then [] else [Failed (error s)])
      in if vs = [] then [Idle] else vs)"

text \<open>
  The invariant of the transition system: while the loading flag is set exactly one
  call is in flight and neither a result nor an error is held; otherwise no call is
  in flight and a result and an error are not held together.
\<close>

definition consistent :: "system \<Rightarrow> bool" where
  "consistent sys \<longleftrightarrow>
     (if loading (view sys)
      then in_flight sys = 1 \<and> result (view sys) = None \<and> error (view sys) = []
      else in_flight sys = 0 \<and> (result (view sys) = None \<or> error (view sys) = []))"

section \<open>Auxiliary facts\<close>

lemma lit_append: "lit (a @ b) = lit a @ lit b"
  by (simp add: lit_def)

text \<open>The trimmed value is empty exactly for the empty and the white-space-only strings.\<close>

lemma trim_blank_iff: "trim t = [] \<longleftrightarrow> list_all is_white_space t"
proof
  assume "trim t = []"
  then have a: "dropWhile is_white_space (rev (dropWhile is_white_space t)) = []"
    by (simp add: trim_def)
  have "dropWhile is_white_space t = []"
  proof (rule ccontr)
    assume n: "dropWhile is_white_space t \<noteq> []"
    then have "\<not> is_white_space (hd (dropWhile is_white_space t))"
      by (rule hd_dropWhile)
    moreover from a have "\<forall>x\<in>set (rev (dropWhile is_white_space t)). is_white_space x"
      by simp
    ultimately show False using n by (metis hd_in_set set_rev)
  qed
  then show "list_all is_white_space t"
    by (simp add: list_all_iff)
next
  assume "list_all is_white_space t"
  then have "dropWhile is_white_space t = []"
    by (simp add: list_all_iff)
  then show "trim t = []" by (simp add: trim_def del: dropWhile_eq_Nil_conv)
qed

lemma or_else_blank: "x = None \<or> x = Some [] \<Longrightarrow> or_else x d = d"
  by (auto simp: or_else_def)

lemma or_else_given: "v \<noteq> [] \<Longrightarrow> or_else (Some v) d = v"
  by (simp add: or_else_def)

lemma error_message_nonempty: "error_message err \<noteq> []"
  by (simp add: error_message_def or_else_def lit_def split: option.splits)

text \<open>An activation on a topic that is not blank: the call is issued and its outcome settled.\<close>

lemma handleSearch_valid:
  "trim (topic s) \<noteq> [] \<Longrightarrow>
   handleSearch api s =
     (handleSearch_settle (api (generate_request (topic s)))
        (s\<lparr>loading := True, error := [], result := None\<rparr>),
      [generate_request (topic s)])"
  by (simp add: handleSearch_def handleSearch_begin_def)

section \<open>Submitting\<close>

text \<open>
  Claim C4. When the trimmed topic is empty (the topic is empty or white space only,
  see \<open>trim_blank_iff\<close>), submitting does nothing: the handler returns at line 29
  with the state as it was, topic, loading, result and error included, and issues no
  call, whatever the external service would have answered.
\<close>

theorem blank_topic_submit_is_noop:
  assumes "trim (topic s) = []"
  shows "handleSearch_begin s = (s, []) \<and> handleSearch api s = (s, [])"
  using assms by (simp add: handleSearch_def handleSearch_begin_def)

theorem blank_topic_submit_is_noop_witness:
  "trim (topic (initial\<lparr>topic := lit ''   ''\<rparr>)) = []
   \<and> handleSearch_begin (initial\<lparr>topic := lit ''   ''\<rparr>) = (initial\<lparr>topic := lit ''   ''\<rparr>, [])
   \<and> handleSearch (\<lambda>_. Rejected (ErrorValue \<lparr>message = None\<rparr>)) (initial\<lparr>topic := lit ''   ''\<rparr>)
       = (initial\<lparr>topic := lit ''   ''\<rparr>, [])"
proof -
  have h: "trim (topic (initial\<lparr>topic := lit ''   ''\<rparr>)) = []"
    by (simp add: trim_def lit_def is_white_space_def)
  show ?thesis
    using h blank_topic_submit_is_noop [OF h, of "\<lambda>_. Rejected (ErrorValue \<lparr>message = None\<rparr>)"] by simp
qed

text \<open>
  Claim C7. On a submit whose trimmed topic is not empty, the part of the handler
  that runs before the call is awaited sets the loading flag and clears the error and
  the result (lines 31 to 33), and issues the call. In the state it leaves, Loading is
  the only variant shown, and the page rendered from it has neither an error panel nor
  a result panel, whatever the state held before.
\<close>

theorem valid_submit_clears_payload:
  assumes "trim (topic s) \<noteq> []"
  shows "handleSearch_begin s
           = (s\<lparr>loading := True, error := [], result := None\<rparr>, [generate_request (topic s)])
         \<and> active_variants (fst (handleSearch_begin s)) = [Loading]
         \<and> render U (fst (handleSearch_begin s))
             = Inr \<lparr>button_disabled = True, button_label = lit ''Searching...'',
                    error_panel = None, result_view = None\<rparr>"
  using assms
  by (simp add: handleSearch_begin_def active_variants_def render_def render_result_def)

theorem valid_submit_clears_payload_witness:
  "trim (topic \<lparr>topic = lit ''CRISPR'', loading = False,
            result = Some \<lparr>result_text = lit ''old'', chunks = [\<lparr>web = None\<rparr>]\<rparr>,
            error = []\<rparr>) \<noteq> []
   \<and> handleSearch_begin \<lparr>topic = lit ''CRISPR'', loading = False,
            result = Some \<lparr>result_text = lit ''old'', chunks = [\<lparr>web = None\<rparr>]\<rparr>,
            error = []\<rparr>
       = (\<lparr>topic = lit ''CRISPR'', loading = True, result = None, error = []\<rparr>,
          [generate_request (lit ''CRISPR'')])
   \<and> active_variants (fst (handleSearch_begin \<lparr>topic = lit ''CRISPR'', loading = False,
            result = Some \<lparr>result_text = lit ''old'', chunks = [\<lparr>web = None\<rparr>]\<rparr>,
            error = []\<rparr>)) = [Loading]"
proof -
  let ?s = "\<lparr>topic = lit ''CRISPR'', loading = False,
            result = Some \<lparr>result_text = lit ''old'', chunks = [\<lparr>web = None\<rparr>]\<rparr>,
            error = []\<rparr>"
  have h: "trim (topic ?s) \<noteq> []"
    by (simp add: trim_def lit_def is_white_space_def)
  show ?thesis
    using h valid_submit_clears_payload [OF h, of sample_URL] by auto
qed

section \<open>A fulfilled call\<close>

text \<open>
  Claim C8. Round trip: when the call made for a non-blank topic is fulfilled with a
  response whose text is a non-empty string \<open>T\<close> and whose grounding chunk list is
  empty (an empty array, or a missing link of the chain, which line 54 turns into the
  empty array), the result stored has text \<open>T\<close> and an empty chunk list.
\<close>

theorem text_and_no_chunks_round_trip:
  assumes "trim (topic s) \<noteq> []"
    and "api (generate_request (topic s)) = Fulfilled r"
    and "response_text r = Some T" and "T \<noteq> []"
    and "grounding_chunks_of r = []"
  shows "result (fst (handleSearch api s)) = Some \<lparr>result_text = T, chunks = []\<rparr>"
  using assms
  by (simp add: handleSearch_valid handleSearch_settle_def search_result_of_def or_else_given)

theorem text_and_no_chunks_round_trip_witness:
  "result (fst (handleSearch
      (\<lambda>_. Fulfilled \<lparr>response_text = Some (lit ''**Paper A**''),
         candidates = Some [\<lparr>groundingMetadata = Some \<lparr>groundingChunks = Some []\<rparr>\<rparr>]\<rparr>)
      (initial\<lparr>topic := lit ''CRISPR''\<rparr>)))
   = Some \<lparr>result_text = lit ''**Paper A**'', chunks = []\<rparr>"
proof -
  let ?r = "\<lparr>response_text = Some (lit ''**Paper A**''),
         candidates = Some [\<lparr>groundingMetadata = Some \<lparr>groundingChunks = Some []\<rparr>\<rparr>]\<rparr>"
  let ?s = "initial\<lparr>topic := lit ''CRISPR''\<rparr>"
  have h1: "trim (topic ?s) \<noteq> []"
    by (simp add: trim_def lit_def is_white_space_def)
  have h2: "(\<lambda>_. Fulfilled ?r) (generate_request (topic ?s)) = Fulfilled ?r" by simp
  have h3: "response_text ?r = Some (lit ''**Paper A**'')" by simp
  have h4: "lit ''**Paper A**'' \<noteq> []" by (simp add: lit_def)
  have h5: "grounding_chunks_of ?r = []" by (simp add: grounding_chunks_of_def)
  show ?thesis
    by (rule text_and_no_chunks_round_trip [OF h1 h2 h3 h4 h5])
qed

text \<open>
  Claim C9. When the response of a fulfilled call has no text (the field is absent or
  the empty string), the text of the result is the sentinel "No results found."
  (line 52), and that is the result the handler stores.
\<close>

theorem missing_text_gives_sentinel:
  assumes "response_text r = None \<or> response_text r = Some []"
  shows "result_text (search_result_of r) = lit ''No results found.''
       \<and> result (handleSearch_settle (Fulfilled r) s)
           = Some \<lparr>result_text = lit ''No results found.'', chunks = grounding_chunks_of r\<rparr>"
  using assms
  by (simp add: handleSearch_settle_def search_result_of_def or_else_blank)

theorem missing_text_gives_sentinel_witness:
  "result_text (search_result_of \<lparr>response_text = Some [], candidates = None\<rparr>)
     = lit ''No results found.''
   \<and> result_text (search_result_of \<lparr>response_text = None, candidates = None\<rparr>)
     = lit ''No results found.''"
proof -
  have a: "response_text \<lparr>response_text = Some [], candidates = None\<rparr> = None
         \<or> response_text \<lparr>response_text = Some [], candidates = None\<rparr> = Some []" by simp
  have b: "response_text \<lparr>response_text = None, candidates = None\<rparr> = None
         \<or> response_text \<lparr>response_text = None, candidates = None\<rparr> = Some []" by simp
  show ?thesis
    using missing_text_gives_sentinel [OF a] missing_text_gives_sentinel [OF b] by simp
qed

section \<open>A rejected call\<close>

text \<open>
  Claim C5, where the code departs from it. When the call made for a non-blank topic
  rejects with \<^verbatim>\<open>null\<close> or \<^verbatim>\<open>undefined\<close>, reading \<^verbatim>\<open>err.message\<close> at line 58
  throws inside the \<^verbatim>\<open>catch\<close>: no message is stored, not even the fallback, the
  \<^verbatim>\<open>finally\<close> lowers the loading flag, the state left shows Idle, and the
  \<^verbatim>\<open>TypeError\<close> leaves the handler.
\<close>

theorem nullish_rejection_ends_idle:
  assumes "trim (topic s) \<noteq> []"
    and "api (generate_request (topic s)) = Rejected Nullish"
  shows "fst (handleSearch api s) = s\<lparr>loading := False, error := [], result := None\<rparr>
       \<and> active_variants (fst (handleSearch api s)) = [Idle]
       \<and> handleSearch_escape (api (generate_request (topic s))) = Some TypeError"
  using assms
  by (simp add: handleSearch_valid handleSearch_settle_def handleSearch_escape_def
      active_variants_def)

theorem nullish_rejection_ends_idle_witness:
  "active_variants (fst (handleSearch (\<lambda>_. Rejected Nullish) (initial\<lparr>topic := lit ''topic''\<rparr>)))
     = [Idle]
   \<and> handleSearch_escape (Rejected Nullish) = Some TypeError"
proof -
  let ?s = "initial\<lparr>topic := lit ''topic''\<rparr>"
  have h1: "trim (topic ?s) \<noteq> []"
    by (simp add: trim_def lit_def is_white_space_def)
  have h2: "(\<lambda>_. Rejected Nullish) (generate_request (topic ?s)) = Rejected Nullish" by simp
  from nullish_rejection_ends_idle [where api = "\<lambda>_. Rejected Nullish", OF h1 h2]
  show ?thesis by auto
qed

text \<open>
  On every other rejection the claim holds. When the call made for a non-blank topic
  rejects with a value that is not \<^verbatim>\<open>null\<close> or \<^verbatim>\<open>undefined\<close>, the activation ends
  with the loading flag down, no result and the error message set, so Failed is the
  only variant shown. The message is the one of the error when it has a non-empty one,
  and the fallback "An error occurred while fetching articles." when the message is
  absent or empty (line 58). A rejection with message "quota exceeded" gives
  Failed("quota exceeded").
\<close>

theorem failed_call_gives_Failed:
  assumes "trim (topic s) \<noteq> []"
    and "api (generate_request (topic s)) = Rejected (ErrorValue err)"
  shows "fst (handleSearch api s) = s\<lparr>loading := False, error := error_message err, result := None\<rparr>
       \<and> active_variants (fst (handleSearch api s)) = [Failed (error_message err)]
       \<and> handleSearch_escape (api (generate_request (topic s))) = None
       \<and> (\<forall>m. message err = Some m \<and> m \<noteq> [] \<longrightarrow> error_message err = m)
       \<and> (message err = None \<or> message err = Some [] \<longrightarrow>
            error_message err = lit ''An error occurred while fetching articles.'')"
  using assms error_message_nonempty [of err]
  by (auto simp: handleSearch_valid handleSearch_settle_def handleSearch_escape_def
      active_variants_def error_message_def or_else_def)

theorem failed_call_gives_Failed_witness:
  "active_variants (fst (handleSearch
       (\<lambda>_. Rejected (ErrorValue \<lparr>message = Some (lit ''quota exceeded'')\<rparr>))
       (initial\<lparr>topic := lit ''topic''\<rparr>)))
   = [Failed (lit ''quota exceeded'')]"
proof -
  let ?s = "initial\<lparr>topic := lit ''topic''\<rparr>"
  let ?e = "\<lparr>message = Some (lit ''quota exceeded'')\<rparr>"
  have h1: "trim (topic ?s) \<noteq> []"
    by (simp add: trim_def lit_def is_white_space_def)
  have h2: "(\<lambda>_. Rejected (ErrorValue ?e)) (generate_request (topic ?s)) = Rejected (ErrorValue ?e)"
    by simp
  have n: "lit ''quota exceeded'' \<noteq> []" by (simp add: lit_def)
  from failed_call_gives_Failed [OF h1 h2] n show ?thesis by auto
qed

section \<open>The source links\<close>

lemma map_chunks_shape:
  "map_chunks U cs = Inr xs \<Longrightarrow>
     map (map_option href) xs = map (\<lambda>c. map_option uri (web c)) cs"
proof (induction cs arbitrary: xs)
  case Nil
  then show ?case by simp
next
  case (Cons c cs)
  from Cons.prems obtain x ys where
    x: "render_chunk U c = Inr x" and ys: "map_chunks U cs = Inr ys" and xs: "xs = x # ys"
    by (auto split: sum.splits)
  have "map_option href x = map_option uri (web c)"
    using x by (auto simp: render_chunk_def split: option.splits)
  then show ?case using Cons.IH [OF ys] xs by simp
qed

lemma map_chunks_throws:
  "c \<in> set cs \<Longrightarrow> web c = Some w \<Longrightarrow> U (uri w) = None \<Longrightarrow> map_chunks U cs = Inl TypeError"
proof (induction cs)
  case Nil
  then show ?case by simp
next
  case (Cons d cs)
  show ?case
  proof (cases "render_chunk U d")
    case (Inl e)
    then show ?thesis by (cases e) simp
  next
    case (Inr x)
    then have "d \<noteq> c" using Cons.prems by (auto simp: render_chunk_def)
    then have "map_chunks U cs = Inl TypeError" using Cons by simp
    then show ?thesis using Inr by simp
  qed
qed

text \<open>
  Claim C1, as amended. When the response carries a grounding chunk list, the result
  stored keeps that list as it is, in order, chunks without \<^verbatim>\<open>web\<close> included. The
  exclusion happens at rendering, by a map to \<^verbatim>\<open>null\<close> (lines 285 and 286): when the
  source list renders, it has one entry per chunk of the response, \<^verbatim>\<open>null\<close> exactly
  where the chunk has no \<^verbatim>\<open>web\<close> field and otherwise a link to the chunk's uri, so
  the links displayed are those of the chunks with web data, in order.
\<close>

theorem chunks_kept_and_nulled_at_render:
  assumes "candidates r = Some (c # rest)"
    and "groundingMetadata c = Some g"
    and "groundingChunks g = Some cs"
  shows "result (handleSearch_settle (Fulfilled r) s)
           = Some \<lparr>result_text = or_else (response_text r) (lit ''No results found.''),
                   chunks = cs\<rparr>
       \<and> (\<forall>xs. render_sources U cs = Inr (SourceList xs) \<longrightarrow>
             length xs = length cs
             \<and> map (map_option href) xs = map (\<lambda>c. map_option uri (web c)) cs)"
proof -
  have g: "grounding_chunks_of r = cs"
    using assms by (simp add: grounding_chunks_of_def)
  have st: "result (handleSearch_settle (Fulfilled r) s)
           = Some \<lparr>result_text = or_else (response_text r) (lit ''No results found.''),
                   chunks = cs\<rparr>"
    using g by (simp add: handleSearch_settle_def search_result_of_def)
  have m: "length xs = length cs
         \<and> map (map_option href) xs = map (\<lambda>c. map_option uri (web c)) cs"
    if "render_sources U cs = Inr (SourceList xs)" for xs
  proof -
    from that have "map_chunks U cs = Inr xs"
      by (auto simp: render_sources_def split: if_splits sum.splits)
    from map_chunks_shape [OF this]
    have e: "map (map_option href) xs = map (\<lambda>c. map_option uri (web c)) cs" .
    from arg_cong [OF e, of length] have "length xs = length cs"
      by simp
    with e show ?thesis by simp
  qed
  show ?thesis using st m by simp
qed

theorem chunks_kept_and_nulled_at_render_witness:
  "result (handleSearch_settle
      (Fulfilled \<lparr>response_text = Some (lit ''**Paper A**''),
         candidates = Some [\<lparr>groundingMetadata = Some \<lparr>groundingChunks = Some
           [\<lparr>web = Some \<lparr>uri = lit ''https://example.org/a'', title = Some (lit ''A'')\<rparr>\<rparr>,
            \<lparr>web = None\<rparr>,
            \<lparr>web = Some \<lparr>uri = lit ''https://example.com/b'', title = None\<rparr>\<rparr>]\<rparr>\<rparr>]\<rparr>)
      (initial\<lparr>topic := lit ''CRISPR'', loading := True\<rparr>))
     = Some \<lparr>result_text = lit ''**Paper A**'',
             chunks =
               [\<lparr>web = Some \<lparr>uri = lit ''https://example.org/a'', title = Some (lit ''A'')\<rparr>\<rparr>,
                \<lparr>web = None\<rparr>,
                \<lparr>web = Some \<lparr>uri = lit ''https://example.com/b'', title = None\<rparr>\<rparr>]\<rparr>
   \<and> render_sources sample_URL
        [\<lparr>web = Some \<lparr>uri = lit ''https://example.org/a'', title = Some (lit ''A'')\<rparr>\<rparr>,
         \<lparr>web = None\<rparr>,
         \<lparr>web = Some \<lparr>uri = lit ''https://example.com/b'', title = None\<rparr>\<rparr>]
     = Inr (SourceList
         [Some \<lparr>href = lit ''https://example.org/a'', label = lit ''A'',
                hostname = lit ''example.org''\<rparr>,
          None,
          Some \<lparr>href = lit ''https://example.com/b'', label = lit ''Untitled Source'',
                hostname = lit ''example.com''\<rparr>])"
proof -
  let ?cs = "[\<lparr>web = Some \<lparr>uri = lit ''https://example.org/a'', title = Some (lit ''A'')\<rparr>\<rparr>,
            \<lparr>web = None\<rparr>,
            \<lparr>web = Some \<lparr>uri = lit ''https://example.com/b'', title = None\<rparr>\<rparr>]"
  let ?g = "\<lparr>groundingChunks = Some ?cs\<rparr>"
  let ?c = "\<lparr>groundingMetadata = Some ?g\<rparr>"
  let ?r = "\<lparr>response_text = Some (lit ''**Paper A**''), candidates = Some [?c]\<rparr>"
  have h1: "candidates ?r = Some (?c # [])" by simp
  have h2: "groundingMetadata ?c = Some ?g" by simp
  have h3: "groundingChunks ?g = Some ?cs" by simp
  have u: "sample_URL (lit ''https://example.org/a'') = Some (lit ''example.org'')"
    "sample_URL (lit ''https://example.com/b'') = Some (lit ''example.com'')"
    by (simp_all add: sample_URL_def lit_def)
  have a: "lit ''A'' \<noteq> []" "lit ''**Paper A**'' \<noteq> []" by (simp_all add: lit_def)
  have e: "render_sources sample_URL ?cs
     = Inr (SourceList
         [Some \<lparr>href = lit ''https://example.org/a'', label = lit ''A'',
                hostname = lit ''example.org''\<rparr>,
          None,
          Some \<lparr>href = lit ''https://example.com/b'', label = lit ''Untitled Source'',
                hostname = lit ''example.com''\<rparr>])"
    by (simp add: render_sources_def render_chunk_def u or_else_def a)
  from chunks_kept_and_nulled_at_render
    [where U = sample_URL and s = "initial\<lparr>topic := lit ''CRISPR'', loading := True\<rparr>",
      OF h1 h2 h3] e a
  show ?thesis by (simp add: or_else_def)
qed

text \<open>
  The claim as stated fails on a response with two chunks of which the first has no
  \<^verbatim>\<open>web\<close> field: the result holds both chunks, where a filter would leave one, and
  the source list rendered has two entries, the first of them \<^verbatim>\<open>null\<close>.
\<close>

theorem citations_filtered_counterexample:
  "chunks (search_result_of \<lparr>response_text = Some (lit ''x''),
      candidates = Some [\<lparr>groundingMetadata = Some \<lparr>groundingChunks = Some
        [\<lparr>web = None\<rparr>,
         \<lparr>web = Some \<lparr>uri = lit ''https://example.org/a'', title = Some (lit ''A'')\<rparr>\<rparr>]\<rparr>\<rparr>]\<rparr>)
     \<noteq> filter (\<lambda>c. web c \<noteq> None)
         [\<lparr>web = None\<rparr>,
          \<lparr>web = Some \<lparr>uri = lit ''https://example.org/a'', title = Some (lit ''A'')\<rparr>\<rparr>]
   \<and> render_sources sample_URL (chunks (search_result_of \<lparr>response_text = Some (lit ''x''),
      candidates = Some [\<lparr>groundingMetadata = Some \<lparr>groundingChunks = Some
        [\<lparr>web = None\<rparr>,
         \<lparr>web = Some \<lparr>uri = lit ''https://example.org/a'', title = Some (lit ''A'')\<rparr>\<rparr>]\<rparr>\<rparr>]\<rparr>))
     = Inr (SourceList [None, Some \<lparr>href = lit ''https://example.org/a'', label = lit ''A'',
                                    hostname = lit ''example.org''\<rparr>])"
proof -
  have u: "sample_URL (lit ''https://example.org/a'') = Some (lit ''example.org'')"
    by (simp add: sample_URL_def lit_def)
  have a: "lit ''A'' \<noteq> []" by (simp add: lit_def)
  show ?thesis
    by (simp add: search_result_of_def grounding_chunks_of_def render_sources_def
        render_chunk_def u or_else_def a)
qed

text \<open>
  Claim C2, where the code departs from it. Rendering is outside the handler's
  \<^verbatim>\<open>try\<close>: when the call made for a non-blank topic is fulfilled with a response
  that has a web chunk whose uri the URL parser rejects, the state reached shows
  Succeeded and rendering it throws a \<^verbatim>\<open>TypeError\<close> (line 343), which nothing
  catches.
\<close>

theorem unparseable_uri_breaks_render:
  assumes "trim (topic s) \<noteq> []"
    and "api (generate_request (topic s)) = Fulfilled r"
    and "c \<in> set (grounding_chunks_of r)" and "web c = Some w" and "U (uri w) = None"
  shows "active_variants (fst (handleSearch api s)) = [Succeeded (search_result_of r)]
       \<and> render U (fst (handleSearch api s)) = Inl TypeError"
proof -
  have ne: "grounding_chunks_of r \<noteq> []" using assms(3) by auto
  have "map_chunks U (grounding_chunks_of r) = Inl TypeError"
    by (rule map_chunks_throws [where U = U, OF assms(3) assms(4) assms(5)])
  then have "render_sources U (chunks (search_result_of r)) = Inl TypeError"
    using ne by (simp add: render_sources_def search_result_of_def)
  then show ?thesis
    using assms(1,2)
    by (simp add: handleSearch_valid handleSearch_settle_def active_variants_def
        render_def render_result_def)
qed

theorem unparseable_uri_breaks_render_witness:
  "render sample_URL (fst (handleSearch
      (\<lambda>_. Fulfilled \<lparr>response_text = Some (lit ''**Paper A**''),
         candidates = Some [\<lparr>groundingMetadata = Some \<lparr>groundingChunks = Some
           [\<lparr>web = Some \<lparr>uri = lit ''not a url'', title = Some (lit ''A'')\<rparr>\<rparr>]\<rparr>\<rparr>]\<rparr>)
      (initial\<lparr>topic := lit ''CRISPR''\<rparr>)))
   = Inl TypeError"
proof -
  let ?w = "\<lparr>uri = lit ''not a url'', title = Some (lit ''A'')\<rparr>"
  let ?r = "\<lparr>response_text = Some (lit ''**Paper A**''),
         candidates = Some [\<lparr>groundingMetadata = Some \<lparr>groundingChunks = Some [\<lparr>web = Some ?w\<rparr>]\<rparr>\<rparr>]\<rparr>"
  let ?s = "initial\<lparr>topic := lit ''CRISPR''\<rparr>"
  have h1: "trim (topic ?s) \<noteq> []"
    by (simp add: trim_def lit_def is_white_space_def)
  have h2: "(\<lambda>_. Fulfilled ?r) (generate_request (topic ?s)) = Fulfilled ?r" by simp
  have h3: "\<lparr>web = Some ?w\<rparr> \<in> set (grounding_chunks_of ?r)"
    by (simp add: grounding_chunks_of_def)
  have h4: "web \<lparr>web = Some ?w\<rparr> = Some ?w" by simp
  have h5: "sample_URL (uri ?w) = None" by (simp add: sample_URL_def lit_def)
  from unparseable_uri_breaks_render [where U = sample_URL and api = "\<lambda>_. Fulfilled ?r", OF h1 h2 h3 h4 h5]
  show ?thesis by simp
qed

text \<open>
  Claim C10, where the code departs from it. A chunk that carries web data with a uri
  and no title (absent or empty) is not displayed under the title "Untitled Source"
  when the URL parser rejects the uri: the callback throws a \<^verbatim>\<open>TypeError\<close> at line
  343, and so does the rendering of every source list that holds the chunk.
\<close>

theorem untitled_unparseable_chunk_throws:
  assumes "web c = Some w"
    and "title w = None \<or> title w = Some []"
    and "U (uri w) = None"
  shows "render_chunk U c = Inl TypeError
       \<and> (\<forall>cs. c \<in> set cs \<longrightarrow> render_sources U cs = Inl TypeError)"
proof -
  have one: "render_chunk U c = Inl TypeError"
    using assms by (simp add: render_chunk_def)
  have all: "render_sources U cs = Inl TypeError" if "c \<in> set cs" for cs
  proof -
    have "map_chunks U cs = Inl TypeError"
      by (rule map_chunks_throws [where U = U, OF that assms(1) assms(3)])
    moreover have "cs \<noteq> []" using that by auto
    ultimately show ?thesis by (simp add: render_sources_def)
  qed
  from one all show ?thesis by simp
qed

theorem untitled_unparseable_chunk_throws_witness:
  "render_chunk sample_URL \<lparr>web = Some \<lparr>uri = lit ''not a url'', title = None\<rparr>\<rparr> = Inl TypeError
   \<and> render_sources sample_URL [\<lparr>web = Some \<lparr>uri = lit ''not a url'', title = None\<rparr>\<rparr>]
       = Inl TypeError"
proof -
  let ?w = "\<lparr>uri = lit ''not a url'', title = None\<rparr>"
  have h1: "web \<lparr>web = Some ?w\<rparr> = Some ?w" by simp
  have h2: "title ?w = None \<or> title ?w = Some []" by simp
  have h3: "sample_URL (uri ?w) = None" by (simp add: sample_URL_def lit_def)
  from untitled_unparseable_chunk_throws [where U = sample_URL, OF h1 h2 h3]
  show ?thesis by simp
qed

text \<open>
  When the URL parser accepts the uri, the claim holds: a chunk that carries web data
  with such a uri, and whose title is absent or empty, is displayed as a link to that
  uri under the title "Untitled Source" (line 328).
\<close>

theorem untitled_source_fallback:
  assumes "web c = Some w"
    and "title w = None \<or> title w = Some []"
    and "U (uri w) = Some h"
  shows "render_chunk U c
           = Inr (Some \<lparr>href = uri w, label = lit ''Untitled Source'', hostname = h\<rparr>)"
  using assms by (simp add: render_chunk_def or_else_blank)

theorem untitled_source_fallback_witness:
  "render_chunk sample_URL \<lparr>web = Some \<lparr>uri = lit ''https://example.org/a'', title = None\<rparr>\<rparr>
     = Inr (Some \<lparr>href = lit ''https://example.org/a'', label = lit ''Untitled Source'',
                  hostname = lit ''example.org''\<rparr>)"
proof -
  let ?w = "\<lparr>uri = lit ''https://example.org/a'', title = None\<rparr>"
  have h1: "web \<lparr>web = Some ?w\<rparr> = Some ?w" by simp
  have h2: "title ?w = None \<or> title ?w = Some []" by simp
  have h3: "sample_URL (uri ?w) = Some (lit ''example.org'')"
    by (simp add: sample_URL_def lit_def)
  from untitled_source_fallback [where U = sample_URL, OF h1 h2 h3] show ?thesis by simp
qed

section \<open>The prompt\<close>

lemma sublist_prompt_head: "sublist p prompt_head \<Longrightarrow> sublist p (prompt t)"
proof -
  assume "sublist p prompt_head"
  then obtain ps ss where "prompt_head = ps @ p @ ss" by (auto simp: sublist_def)
  then have "prompt t = ps @ p @ (ss @ t @ prompt_tail)" by (simp add: prompt_def)
  then show ?thesis by (metis sublist_appendI)
qed

lemma sublist_prompt_tail: "sublist p prompt_tail \<Longrightarrow> sublist p (prompt t)"
proof -
  assume "sublist p prompt_tail"
  then obtain ps ss where "prompt_tail = ps @ p @ ss" by (auto simp: sublist_def)
  then have "prompt t = (prompt_head @ t @ ps) @ p @ ss" by (simp add: prompt_def)
  then show ?thesis by (metis sublist_appendI)
qed

lemma sublist_litI: "s = a @ p @ b \<Longrightarrow> sublist (lit p) (lit s)"
  by (simp add: lit_append)

text \<open>
  Claim C3, where the code departs from it. Whatever the topic and whenever the call
  is made, the prompt spells the publication window as
  "published in the last 5 years (2020-2025)": the years are fixed text of the
  template literal (line 38), not computed from the current date.
\<close>

theorem prompt_names_fixed_years:
  "sublist (lit ''published in the last 5 years (2020-2025)'')
     (contents (generate_request t))"
proof -
  have "sublist (lit ''published in the last 5 years (2020-2025)'') prompt_head"
    unfolding prompt_head_def
    by (rule sublist_litI
        [where a = "''Find 5 high-quality research articles, papers, or reputable academic sources ''"
           and b = "'' related to: ''  @ [CHR 0x22]"]) simp
  then show ?thesis by (simp add: generate_request_def sublist_prompt_head)
qed

lemma prompt_asks_five: "prefix (lit ''Find 5 high-quality research articles'') (prompt t)"
proof -
  have "prefix (lit ''Find 5 high-quality research articles'') prompt_head"
    unfolding prompt_head_def lit_def by simp
  then show ?thesis unfolding prompt_def by (rule prefix_prefix)
qed

lemma prompt_last_five_years: "sublist (lit ''published in the last 5 years'') (prompt t)"
  apply (rule sublist_prompt_head)
  unfolding prompt_head_def
  apply (rule sublist_litI
        [where a = "''Find 5 high-quality research articles, papers, or reputable academic sources ''"
           and b = "'' (2020-2025) related to: ''  @ [CHR 0x22]"])
  apply simp
  done

lemma prompt_fields:
  "sublist (lit ''1. Title'') (prompt t)"
  "sublist (lit ''2. Authors (if available)'') (prompt t)"
  "sublist (lit ''3. Year'') (prompt t)"
  "sublist (lit ''4. A brief summary of why it is relevant for a presentation.'') (prompt t)"
  "sublist (lit ''Use Markdown formatting'') (prompt t)"
proof -
  show "sublist (lit ''1. Title'') (prompt t)"
    apply (rule sublist_prompt_tail)
    unfolding prompt_tail_def
    apply (rule sublist_litI [where a = "[CHR 0x22] @ ''. '' @ nl @ ''        '' @ nl
          @ ''        For each article, provide:'' @ nl @ ''        ''"
        and b = "nl @ ''        2. Authors (if available)'' @ nl
     @ ''        3. Year'' @ nl
     @ ''        4. A brief summary of why it is relevant for a presentation.'' @ nl
     @ ''        '' @ nl
     @ ''        Use Markdown formatting (bolding titles, using bullet points) to make it easy to read.''"])
    apply simp
    done
  show "sublist (lit ''2. Authors (if available)'') (prompt t)"
    apply (rule sublist_prompt_tail)
    unfolding prompt_tail_def
    apply (rule sublist_litI [where a = "[CHR 0x22] @ ''. '' @ nl @ ''        '' @ nl
          @ ''        For each article, provide:'' @ nl @ ''        1. Title'' @ nl @ ''        ''"
        and b = "nl
     @ ''        3. Year'' @ nl
     @ ''        4. A brief summary of why it is relevant for a presentation.'' @ nl
     @ ''        '' @ nl
     @ ''        Use Markdown formatting (bolding titles, using bullet points) to make it easy to read.''"])
    apply simp
    done
  show "sublist (lit ''3. Year'') (prompt t)"
    apply (rule sublist_prompt_tail)
    unfolding prompt_tail_def
    apply (rule sublist_litI [where a = "[CHR 0x22] @ ''. '' @ nl @ ''        '' @ nl
          @ ''        For each article, provide:'' @ nl @ ''        1. Title'' @ nl
          @ ''        2. Authors (if available)'' @ nl @ ''        ''"
        and b = "nl
     @ ''        4. A brief summary of why it is relevant for a presentation.'' @ nl
     @ ''        '' @ nl
     @ ''        Use Markdown formatting (bolding titles, using bullet points) to make it easy to read.''"])
    apply simp
    done
  show "sublist (lit ''4. A brief summary of why it is relevant for a presentation.'') (prompt t)"
    apply (rule sublist_prompt_tail)
    unfolding prompt_tail_def
    apply (rule sublist_litI [where a = "[CHR 0x22] @ ''. '' @ nl @ ''        '' @ nl
          @ ''        For each article, provide:'' @ nl @ ''        1. Title'' @ nl
          @ ''        2. Authors (if available)'' @ nl @ ''        3. Year'' @ nl @ ''        ''"
        and b = "nl
     @ ''        '' @ nl
     @ ''        Use Markdown formatting (bolding titles, using bullet points) to make it easy to read.''"])
    apply simp
    done
  show "sublist (lit ''Use Markdown formatting'') (prompt t)"
    apply (rule sublist_prompt_tail)
    unfolding prompt_tail_def
    apply (rule sublist_litI [where a = "[CHR 0x22] @ ''. '' @ nl @ ''        '' @ nl
          @ ''        For each article, provide:'' @ nl @ ''        1. Title'' @ nl
          @ ''        2. Authors (if available)'' @ nl @ ''        3. Year'' @ nl
          @ ''        4. A brief summary of why it is relevant for a presentation.'' @ nl
          @ ''        '' @ nl @ ''        ''"
        and b = "'' (bolding titles, using bullet points) to make it easy to read.''"])
    apply simp
    done
qed

text \<open>
  The rest of what is said of the prompt holds. A submit with a non-blank topic issues
  exactly one call, with the search tool enabled; its prompt is a function of the
  topic alone, the fixed head, the topic as typed and the fixed tail; it contains the
  topic, opens by asking for 5 articles, asks for sources published in the last 5
  years, lists title, authors if available, year and a summary of relevance, and asks
  for Markdown formatting.
\<close>

theorem submit_issues_one_call:
  assumes "trim (topic s) \<noteq> []"
  shows "snd (handleSearch api s) = [generate_request (topic s)]
       \<and> contents (generate_request (topic s)) = prompt_head @ topic s @ prompt_tail
       \<and> tools (generate_request (topic s)) = [googleSearch]
       \<and> sublist (topic s) (contents (generate_request (topic s)))
       \<and> prefix (lit ''Find 5 high-quality research articles'') (contents (generate_request (topic s)))
       \<and> sublist (lit ''published in the last 5 years'') (contents (generate_request (topic s)))
       \<and> sublist (lit ''1. Title'') (contents (generate_request (topic s)))
       \<and> sublist (lit ''2. Authors (if available)'') (contents (generate_request (topic s)))
       \<and> sublist (lit ''3. Year'') (contents (generate_request (topic s)))
       \<and> sublist (lit ''4. A brief summary of why it is relevant for a presentation.'')
            (contents (generate_request (topic s)))
       \<and> sublist (lit ''Use Markdown formatting'') (contents (generate_request (topic s)))"
proof -
  have c: "contents (generate_request (topic s)) = prompt (topic s)"
    by (simp add: generate_request_def)
  have t: "sublist (topic s) (prompt (topic s))"
    by (simp add: prompt_def)
  show ?thesis
    unfolding c
    using assms t prompt_asks_five [of "topic s"] prompt_last_five_years [of "topic s"]
      prompt_fields [of "topic s"]
    by (simp add: handleSearch_valid generate_request_def prompt_def)
qed

theorem submit_issues_one_call_witness:
  "snd (handleSearch (\<lambda>_. Rejected (ErrorValue \<lparr>message = None\<rparr>)) (initial\<lparr>topic := lit ''CRISPR''\<rparr>))
     = [generate_request (lit ''CRISPR'')]
   \<and> sublist (lit ''CRISPR'') (contents (generate_request (lit ''CRISPR'')))"
proof -
  let ?s = "initial\<lparr>topic := lit ''CRISPR''\<rparr>"
  have h: "trim (topic ?s) \<noteq> []"
    by (simp add: trim_def lit_def is_white_space_def)
  from submit_issues_one_call [OF h, of "\<lambda>_. Rejected (ErrorValue \<lparr>message = None\<rparr>)"]
  show ?thesis by simp
qed

section \<open>The request state\<close>

lemma consistent_start: "consistent start"
  by (simp add: consistent_def start_def initial_def)

lemma consistent_step:
  assumes "consistent sys" and "step e sys = Some sys'"
  shows "consistent sys'"
proof (cases e)
  case (Change v)
  with assms show ?thesis by (auto simp: step_def consistent_def)
next
  case Submit
  with assms show ?thesis
    by (auto simp: step_def consistent_def submit_disabled_def handleSearch_begin_def
        split: if_splits)
next
  case (Settle out)
  with assms show ?thesis
    by (cases out)
      (auto simp: step_def consistent_def handleSearch_settle_def
        split: if_splits thrown.splits)
qed

lemma reachable_consistent: "reachable sys \<Longrightarrow> consistent sys"
  by (induction rule: reachable.induct) (auto intro: consistent_start consistent_step)

lemma consistent_one_variant: "consistent sys \<Longrightarrow> \<exists>v. active_variants (view sys) = [v]"
  by (auto simp: consistent_def active_variants_def split: if_splits option.splits)

lemma run_reachable: "reachable sys \<Longrightarrow> run es sys = Some sys' \<Longrightarrow> reachable sys'"
proof (induction es arbitrary: sys)
  case Nil
  then show ?case by simp
next
  case (Cons e es)
  then show ?case by (auto split: option.splits intro: reachable_step)
qed

text \<open>
  Claim C6, as amended. The application starts Idle. In every state reachable through
  the events of the page, where a submit is delivered only while the submit button is
  enabled (line 132), exactly one variant is shown: a result and an error are never
  held together, and neither is held while loading; the loading flag is set exactly
  while one call is in flight. Every step follows the lifecycle: typing leaves the
  variant as it is; a submit happens only outside Loading, and either does nothing
  (blank topic) or leads to Loading, from Idle, Succeeded and Failed alike; the
  settling of the call happens only in Loading, and leads to Succeeded with the result
  of the response when the call is fulfilled and to Failed with the message of the
  error when it rejects with a value other than \<^verbatim>\<open>null\<close> and \<^verbatim>\<open>undefined\<close>.
\<close>

theorem request_state_lifecycle:
  assumes "reachable sys"
  shows "active_variants (view start) = [Idle]
       \<and> (\<exists>v. active_variants (view sys) = [v])
       \<and> (loading (view sys) \<longleftrightarrow> in_flight sys = 1)
       \<and> (\<forall>e sys'. step e sys = Some sys' \<longrightarrow>
            (case e of
               Change v \<Rightarrow> active_variants (view sys') = active_variants (view sys)
             | Submit \<Rightarrow>
                 active_variants (view sys) \<noteq> [Loading]
                 \<and> (if trim (topic (view sys)) = [] then sys' = sys
                    else active_variants (view sys') = [Loading])
             | Settle out \<Rightarrow>
                 active_variants (view sys) = [Loading]
                 \<and> (case out of
                      Fulfilled r \<Rightarrow>
                        active_variants (view sys') = [Succeeded (search_result_of r)]
                    | Rejected Nullish \<Rightarrow> True
                    | Rejected (ErrorValue err) \<Rightarrow>
                        active_variants (view sys') = [Failed (error_message err)])))"
proof -
  from assms have c: "consistent sys" by (rule reachable_consistent)
  have one: "\<exists>v. active_variants (view sys) = [v]"
    using c by (rule consistent_one_variant)
  have fl: "loading (view sys) \<longleftrightarrow> in_flight sys = 1"
    using c by (auto simp: consistent_def split: if_splits)
  have st: "(case e of
               Change v \<Rightarrow> active_variants (view sys') = active_variants (view sys)
             | Submit \<Rightarrow>
                 active_variants (view sys) \<noteq> [Loading]
                 \<and> (if trim (topic (view sys)) = [] then sys' = sys
                    else active_variants (view sys') = [Loading])
             | Settle out \<Rightarrow>
                 active_variants (view sys) = [Loading]
                 \<and> (case out of
                      Fulfilled r \<Rightarrow>
                        active_variants (view sys') = [Succeeded (search_result_of r)]
                    | Rejected Nullish \<Rightarrow> True
                    | Rejected (ErrorValue err) \<Rightarrow>
                        active_variants (view sys') = [Failed (error_message err)]))"
    if s: "step e sys = Some sys'" for e sys'
  proof (cases e)
    case (Change v)
    with s show ?thesis by (auto simp: step_def active_variants_def)
  next
    case Submit
    with s c show ?thesis
      by (auto simp: step_def submit_disabled_def handleSearch_begin_def active_variants_def
          consistent_def split: if_splits option.splits)
  next
    case (Settle out)
    with s c error_message_nonempty show ?thesis
      by (cases out)
        (auto simp: step_def handleSearch_settle_def active_variants_def consistent_def
          split: if_splits thrown.splits)
  qed
  have idle: "active_variants (view start) = [Idle]"
    by (simp add: start_def initial_def active_variants_def)
  from idle one fl st show ?thesis by blast
qed

theorem request_state_lifecycle_witness:
  "reachable \<lparr>view = \<lparr>topic = lit ''CRISPR'', loading = True, result = None, error = []\<rparr>,
              in_flight = 1, issued = [generate_request (lit ''CRISPR'')]\<rparr>
   \<and> active_variants \<lparr>topic = lit ''CRISPR'', loading = True, result = None, error = []\<rparr>
       = [Loading]
   \<and> active_variants (handleSearch_settle
          (Rejected (ErrorValue \<lparr>message = Some (lit ''quota exceeded'')\<rparr>))
          \<lparr>topic = lit ''CRISPR'', loading = True, result = None, error = []\<rparr>)
       = [Failed (lit ''quota exceeded'')]"
proof -
  let ?v = "\<lparr>topic = lit ''CRISPR'', loading = True, result = None, error = []\<rparr>"
  let ?sys = "\<lparr>view = ?v, in_flight = 1, issued = [generate_request (lit ''CRISPR'')]\<rparr>"
  let ?out = "Rejected (ErrorValue \<lparr>message = Some (lit ''quota exceeded'')\<rparr>)"
  have t: "trim (lit ''CRISPR'') \<noteq> []"
    by (simp add: trim_def lit_def is_white_space_def)
  have n: "lit ''CRISPR'' \<noteq> []" by (simp add: lit_def)
  have "run [Change (lit ''CRISPR''), Submit] start = Some ?sys"
    using t n
    by (simp add: step_def start_def initial_def submit_disabled_def handleSearch_begin_def)
  then have r: "reachable ?sys"
    by (rule run_reachable [OF reachable_start])
  have s: "step (Settle ?out) ?sys
     = Some (?sys\<lparr>view := handleSearch_settle ?out ?v, in_flight := 0\<rparr>)"
    by (simp add: step_def)
  have q: "lit ''quota exceeded'' \<noteq> []" by (simp add: lit_def)
  have m: "error_message \<lparr>message = Some (lit ''quota exceeded'')\<rparr> = lit ''quota exceeded''"
    using q by (simp add: error_message_def or_else_def)
  from request_state_lifecycle [OF r] s
  have "active_variants (view ?sys) = [Loading]
     \<and> active_variants (view (?sys\<lparr>view := handleSearch_settle ?out ?v, in_flight := 0\<rparr>))
         = [Failed (error_message \<lparr>message = Some (lit ''quota exceeded'')\<rparr>)]"
    by fastforce
  with r m show ?thesis by simp
qed

text \<open>
  The claim as stated, of every state and every submit, fails on the handler of lines
  27 to 62 taken by itself. Activated twice on the topic "CRISPR" before the first
  call settles, the first call then fulfilled and the second rejected, it leaves a
  state that holds a result and an error together, so that two variants are shown.
  And a submit with a blank topic from a Failed state stays in Failed.
\<close>

theorem unguarded_handler_counterexample:
  "active_variants
     (handleSearch_settle (Rejected (ErrorValue \<lparr>message = Some (lit ''quota exceeded'')\<rparr>))
       (handleSearch_settle (Fulfilled \<lparr>response_text = Some (lit ''**Paper A**''), candidates = None\<rparr>)
         (fst (handleSearch_begin (fst (handleSearch_begin (initial\<lparr>topic := lit ''CRISPR''\<rparr>)))))))
     = [Succeeded \<lparr>result_text = lit ''**Paper A**'', chunks = []\<rparr>,
        Failed (lit ''quota exceeded'')]
   \<and> active_variants (fst (handleSearch_begin
        \<lparr>topic = lit ''   '', loading = False, result = None, error = lit ''quota exceeded''\<rparr>))
     = [Failed (lit ''quota exceeded'')]"
proof -
  have t: "trim (lit ''CRISPR'') \<noteq> []" "trim (lit ''   '') = []"
    by (simp_all add: trim_def lit_def is_white_space_def)
  have a: "lit ''**Paper A**'' \<noteq> []" and q: "lit ''quota exceeded'' \<noteq> []"
    by (simp_all add: lit_def)
  show ?thesis
    using t a q
    by (simp add: handleSearch_begin_def handleSearch_settle_def active_variants_def
        initial_def search_result_of_def grounding_chunks_of_def error_message_def or_else_def)
qed

end
